theory Spec2Isabelle
  imports Complex_Main "HOL-Library.Word"
begin

unbundle bit_operations_syntax

section \<open>ECIES over secp256k1: the module \<open>hmt_escrow/crypto.py\<close>\<close>

text \<open>
  The module composes library primitives (SHA-256, HMAC-SHA-256, AES in CTR mode, the
  elliptic-curve operations of \<open>cryptography\<close> and the key classes of \<open>eth_keys\<close>) into
  \<open>encrypt\<close>, \<open>decrypt\<close> and \<open>kdf\<close>. The primitives are not part of the module: they are
  the fields of a record that every function takes as its first argument. What the module
  itself does (slicing, concatenation, the loop of \<open>kdf\<close>, the order of the checks and the
  exceptions raised) is written out.
\<close>

subsection \<open>Bytes and Python slices\<close>

type_synonym bytes = "8 word list"

definition py_bound :: "nat \<Rightarrow> int \<Rightarrow> nat" where
  \<comment> \<open>a slice bound \<open>i\<close> on a sequence of length \<open>n\<close>: negative bounds count from the end,
      and every bound is clamped to \<open>0..n\<close>\<close>
  "py_bound n i = (if i < 0 then nat (max (int n + i) 0) else min (nat i) n)"

definition py_slice :: "'a list \<Rightarrow> int option \<Rightarrow> int option \<Rightarrow> 'a list" where
  \<comment> \<open>\<open>xs[lo:hi]\<close>; \<open>None\<close> is an omitted bound; the slice is empty when \<open>hi\<close> is not
      after \<open>lo\<close>\<close>
  "py_slice xs lo hi =
     (let n = length xs;
          a = (case lo of None \<Rightarrow> 0 | Some i \<Rightarrow> py_bound n i);
          b = (case hi of None \<Rightarrow> n | Some j \<Rightarrow> py_bound n j)
      in take (b - a) (drop a xs))"

definition big_endian_to_int :: "bytes \<Rightarrow> int" where
  \<comment> \<open>\<open>int(privkey)\<close> of \<open>eth_keys\<close>: the raw key bytes read as a big-endian number\<close>
  "big_endian_to_int bs = foldl (\<lambda>acc b. acc * 256 + uint b) 0 bs"

function be_digits :: "nat \<Rightarrow> bytes" where
  "be_digits n = (if n < 256 then [word_of_nat n]
                  else be_digits (n div 256) @ [word_of_nat (n mod 256)])"
  by pat_completeness auto
termination
  by (relation "measure id") auto

subsection \<open>Constants and exceptions\<close>

definition PUBKEY_LEN :: int where
  "PUBKEY_LEN = 64"

definition KEY_LEN :: int where
  "KEY_LEN = 32"

definition SHA256_block_size :: int where
  \<comment> \<open>\<open>hashes.SHA256().block_size\<close>, in bytes\<close>
  "SHA256_block_size = 64"

definition AES_block_size :: int where
  \<comment> \<open>\<open>algorithms.AES(key).block_size\<close>, in bits\<close>
  "AES_block_size = 128"

text \<open>
  The text of a \<open>DecryptionError\<close> is either one of the two literal strings of the module
  or the formatted string
  \<open>f"Failed to generate shared secret with pubkey {shared!r}: {exc}"\<close>, kept as its two
  interpolated values.
\<close>

datatype error_text =
    Text string
  | SharedSecretFailure bytes string

datatype error =
    DecryptionError error_text
  | InvalidPublicKey string   \<comment> \<open>the module's private \<open>_InvalidPublicKey\<close>\<close>
  | ValidationError           \<comment> \<open>\<open>eth_keys.exceptions.ValidationError\<close>\<close>
  | ValueError                \<comment> \<open>raised by \<open>cryptography\<close>\<close>
  | OverflowError             \<comment> \<open>\<open>int_to_big_endian\<close> of a negative number\<close>
  | StructError               \<comment> \<open>\<open>struct.error\<close>\<close>

subsection \<open>The library primitives\<close>

record ('k, 'p) prims =
  sha256 :: "bytes \<Rightarrow> bytes"
    \<comment> \<open>\<open>hashlib.sha256(x).digest()\<close>\<close>
  HMAC :: "bytes \<Rightarrow> bytes \<Rightarrow> bytes"
    \<comment> \<open>\<open>hmac.HMAC(key, hashes.SHA256())\<close>, updated with the message and finalized\<close>
  AES_CTR :: "bytes \<Rightarrow> bytes \<Rightarrow> bytes \<Rightarrow> bytes"
    \<comment> \<open>\<open>Cipher(AES(key), CTR(iv))\<close>: \<open>update(data) + finalize()\<close> of its encryptor, which
        is also its decryptor\<close>
  public_key_bytes :: "bytes \<Rightarrow> bytes"
    \<comment> \<open>\<open>privkey.public_key.to_bytes()\<close> of an \<open>eth_keys\<close> private key\<close>
  derive_private_key :: "int \<Rightarrow> 'k option"
    \<comment> \<open>\<open>ec.derive_private_key(n, CURVE)\<close>; \<open>None\<close> is its \<open>ValueError\<close>\<close>
  from_encoded_point :: "bytes \<Rightarrow> string + 'p"
    \<comment> \<open>\<open>ec.EllipticCurvePublicKey.from_encoded_point(CURVE, bs)\<close> and the conversion that
        follows it; \<open>Inl\<close> carries the text of their \<open>ValueError\<close>\<close>
  exchange :: "'k \<Rightarrow> 'p \<Rightarrow> bytes"
    \<comment> \<open>\<open>ec_privkey.exchange(ec.ECDH(), ec_pubkey)\<close>\<close>

definition os_urandom :: "(nat \<Rightarrow> 8 word) \<Rightarrow> int \<Rightarrow> bytes" where
  \<comment> \<open>\<open>os.urandom(n)\<close>: \<open>n\<close> bytes of the entropy source \<open>ent\<close>\<close>
  "os_urandom ent n = map ent [0..<nat n]"

definition keys_PublicKey :: "bytes \<Rightarrow> error + bytes" where
  \<comment> \<open>the constructor \<open>keys.PublicKey(bs)\<close> accepts exactly 64 bytes\<close>
  "keys_PublicKey bs = (if length bs \<noteq> 64 then Inl ValidationError else Inr bs)"

definition keys_PrivateKey :: "bytes \<Rightarrow> error + bytes" where
  \<comment> \<open>the constructor \<open>keys.PrivateKey(bs)\<close> accepts exactly 32 bytes\<close>
  "keys_PrivateKey bs = (if length bs \<noteq> 32 then Inl ValidationError else Inr bs)"

definition int_to_big_endian :: "int \<Rightarrow> error + bytes" where
  \<comment> \<open>\<open>eth_utils.int_to_big_endian\<close>: the shortest big-endian encoding, one zero byte
      for 0\<close>
  "int_to_big_endian v = (if v < 0 then Inl OverflowError else Inr (be_digits (nat v)))"

definition struct_pack_I :: "int \<Rightarrow> error + bytes" where
  \<comment> \<open>\<open>struct.pack(">I", c)\<close>: four bytes, big-endian\<close>
  "struct_pack_I c =
     (if 0 \<le> c \<and> c < 2 ^ 32
      then Inr [word_of_int (c div 2 ^ 24), word_of_int (c div 2 ^ 16),
                word_of_int (c div 2 ^ 8), word_of_int c]
      else Inl StructError)"

definition Cipher_CTR :: "('k, 'p) prims \<Rightarrow> bytes \<Rightarrow> bytes \<Rightarrow> bytes \<Rightarrow> error + bytes" where
  \<comment> \<open>\<open>algo = CIPHER(key)\<close> rejects a key that is not 16, 24 or 32 bytes long, and
      \<open>Cipher(algo, MODE(iv))\<close> a nonce that is not one block long\<close>
  "Cipher_CTR P key iv data =
     (if length key \<notin> {16, 24, 32} then Inl ValueError
      else if int (length iv) \<noteq> AES_block_size div 8 then Inl ValueError
      else Inr (AES_CTR P key iv data))"

definition bytes_eq :: "bytes \<Rightarrow> bytes \<Rightarrow> bool" where
  \<comment> \<open>the constant-time comparison of \<open>cryptography\<close>\<close>
  "bytes_eq a b = (a = b)"

subsection \<open>The functions of the module\<close>

definition pad32 :: "bytes \<Rightarrow> bytes" where
  \<comment> \<open>\<open>value.rjust(32, b"\x00")\<close>\<close>
  "pad32 v = replicate (32 - length v) 0 @ v"

definition generate_privkey :: "int \<Rightarrow> error + bytes" where
  \<comment> \<open>\<open>private_value\<close> is the scalar drawn by \<open>ec.generate_private_key\<close>\<close>
  "generate_privkey private_value =
     (case int_to_big_endian private_value of
        Inl e \<Rightarrow> Inl e
      | Inr b \<Rightarrow> keys_PrivateKey (pad32 b))"

definition ecdh_agree :: "('k, 'p) prims \<Rightarrow> bytes \<Rightarrow> bytes \<Rightarrow> error + bytes" where
  "ecdh_agree P privkey pubkey =
     (let privkey_as_int = big_endian_to_int privkey in
      case derive_private_key P privkey_as_int of
        None \<Rightarrow> Inl ValueError
      | Some ec_privkey \<Rightarrow>
          (let pubkey_bytes = 0x04 # pubkey in
           case from_encoded_point P pubkey_bytes of
             Inl exc \<Rightarrow> Inl (InvalidPublicKey exc)
           | Inr ec_pubkey \<Rightarrow> Inr (exchange P ec_privkey ec_pubkey)))"

definition hmac_sha256 :: "('k, 'p) prims \<Rightarrow> bytes \<Rightarrow> bytes \<Rightarrow> bytes" where
  "hmac_sha256 P key msg = HMAC P key msg"

definition kdf_reps :: rat where
  \<comment> \<open>\<open>reps = ((KEY_LEN + 7) * 8) / (hash_blocksize * 8)\<close>, with the true division of
      Python 3; the quotient of these two small integers is exact in binary floating
      point\<close>
  "kdf_reps = of_int ((KEY_LEN + 7) * 8) / of_int (SHA256_block_size * 8)"

function kdf_loop ::
  "('k, 'p) prims \<Rightarrow> rat \<Rightarrow> bytes \<Rightarrow> int \<Rightarrow> bytes \<Rightarrow> error + bytes" where
  "kdf_loop P reps key_material counter key =
     (if of_int counter \<le> reps then
        (case struct_pack_I (counter + 1) of
           Inl e \<Rightarrow> Inl e
         | Inr packed \<Rightarrow>
             kdf_loop P reps key_material (counter + 1)
               (key @ sha256 P (packed @ key_material)))
      else Inr key)"
  by pat_completeness auto
termination
  by (relation "measure (\<lambda>(P, reps, key_material, counter, key). nat (\<lfloor>reps\<rfloor> + 1 - counter))")
     (auto simp: le_floor_iff)

definition kdf :: "('k, 'p) prims \<Rightarrow> bytes \<Rightarrow> error + bytes" where
  "kdf P key_material =
     (case kdf_loop P kdf_reps key_material 0 [] of
        Inl e \<Rightarrow> Inl e
      | Inr key \<Rightarrow> Inr (py_slice key None (Some KEY_LEN)))"

definition encrypt ::
  "('k, 'p) prims \<Rightarrow> int \<Rightarrow> (nat \<Rightarrow> 8 word) \<Rightarrow> bytes \<Rightarrow> bytes \<Rightarrow> bytes \<Rightarrow> error + bytes" where
  \<comment> \<open>\<open>private_value\<close> and \<open>ent\<close> are the two random draws of a call: the ephemeral scalar
      and the entropy the IV is read from\<close>
  "encrypt P private_value ent data pubkey shared_mac_data =
     (case generate_privkey private_value of
        Inl e \<Rightarrow> Inl e
      | Inr ephemeral \<Rightarrow>
     (case ecdh_agree P ephemeral pubkey of
        Inl e \<Rightarrow> Inl e
      | Inr key_material \<Rightarrow>
     (case kdf P key_material of
        Inl e \<Rightarrow> Inl e
      | Inr key \<Rightarrow>
     (let key_enc = py_slice key None (Some (KEY_LEN div 2));
          key_mac = py_slice key (Some (KEY_LEN div 2)) None;
          key_mac = sha256 P key_mac;
          ephem_pubkey = public_key_bytes P ephemeral;
          iv = os_urandom ent (AES_block_size div 8)
      in case Cipher_CTR P key_enc iv data of
           Inl e \<Rightarrow> Inl e
         | Inr ciphertext \<Rightarrow>
             (let msg = [0x04] @ ephem_pubkey @ iv @ ciphertext;
                  tag = hmac_sha256 P key_mac
                          (py_slice msg (Some (1 + PUBKEY_LEN)) None @ shared_mac_data)
              in Inr (msg @ tag))))))"

text \<open>
  \<open>decrypt\<close> is run with a log of the stages it has entered, in order, so that what it did
  before it raised can be stated; the function \<open>decrypt\<close> itself is the result of the run.
\<close>

datatype stage = KeyAgreement | KeyDerivation | TagVerification | Decryption

definition decrypt_run ::
  "('k, 'p) prims \<Rightarrow> bytes \<Rightarrow> bytes \<Rightarrow> bytes \<Rightarrow> stage list \<times> (error + bytes)" where
  "decrypt_run P data privkey shared_mac_data =
     (if py_slice data None (Some 1) \<noteq> [0x04]
      then ([], Inl (DecryptionError (Text ''wrong ecies header'')))
      else
     (let shared = py_slice data (Some 1) (Some (1 + PUBKEY_LEN)) in
      case keys_PublicKey shared of
        Inl e \<Rightarrow> ([], Inl e)
      | Inr pubkey \<Rightarrow>
     (case ecdh_agree P privkey pubkey of
        Inl (InvalidPublicKey exc) \<Rightarrow>
          ([KeyAgreement], Inl (DecryptionError (SharedSecretFailure shared exc)))
      | Inl e \<Rightarrow> ([KeyAgreement], Inl e)
      | Inr key_material \<Rightarrow>
     (case kdf P key_material of
        Inl e \<Rightarrow> ([KeyAgreement, KeyDerivation], Inl e)
      | Inr key \<Rightarrow>
     (let key_enc = py_slice key None (Some (KEY_LEN div 2));
          key_mac = py_slice key (Some (KEY_LEN div 2)) None;
          key_mac = sha256 P key_mac;
          tag = py_slice data (Some (- KEY_LEN)) None;
          expected_tag = hmac_sha256 P key_mac
                           (py_slice data (Some (1 + PUBKEY_LEN)) (Some (- KEY_LEN))
                              @ shared_mac_data)
      in if \<not> bytes_eq expected_tag tag
         then ([KeyAgreement, KeyDerivation, TagVerification],
               Inl (DecryptionError (Text ''Failed to verify tag'')))
         else
        (let blocksize = AES_block_size div 8;
             iv = py_slice data (Some (1 + PUBKEY_LEN)) (Some (1 + PUBKEY_LEN + blocksize));
             ciphertext = py_slice data (Some (1 + PUBKEY_LEN + blocksize)) (Some (- KEY_LEN))
         in ([KeyAgreement, KeyDerivation, TagVerification, Decryption],
             Cipher_CTR P key_enc iv ciphertext)))))))"

definition decrypt :: "('k, 'p) prims \<Rightarrow> bytes \<Rightarrow> bytes \<Rightarrow> bytes \<Rightarrow> error + bytes" where
  "decrypt P data privkey shared_mac_data = snd (decrypt_run P data privkey shared_mac_data)"


subsection \<open>The key derivation as the specification words it\<close>

text \<open>
  The specification describes \<open>kdf\<close> as the first \<open>KEY_LEN\<close> bytes of the digests for
  \<open>counter = 1\<close> up to and including \<open>reps\<close>, with \<open>reps\<close> computed by the same formula
  under integer semantics. \<open>kdf_spec\<close> follows these words, to be compared with \<open>kdf\<close>.
\<close>

definition kdf_spec_reps :: int where
  "kdf_spec_reps = ((KEY_LEN + 7) * 8) div (SHA256_block_size * 8)"

definition be32 :: "int \<Rightarrow> bytes" where
  "be32 c = [word_of_int (c div 2 ^ 24), word_of_int (c div 2 ^ 16),
             word_of_int (c div 2 ^ 8), word_of_int c]"

definition kdf_spec :: "('k, 'p) prims \<Rightarrow> bytes \<Rightarrow> bytes" where
  "kdf_spec P shared_secret =
     take (nat KEY_LEN)
       (concat (map (\<lambda>counter. sha256 P (be32 counter @ shared_secret)) [1..kdf_spec_reps]))"

subsection \<open>What the module relies on from its libraries\<close>

definition sha256_sized :: "('k, 'p) prims \<Rightarrow> bool" where
  \<comment> \<open>a SHA-256 digest is 32 bytes long\<close>
  "sha256_sized P = (\<forall>x. length (sha256 P x) = 32)"

definition hmac_sized :: "('k, 'p) prims \<Rightarrow> bool" where
  \<comment> \<open>an HMAC-SHA-256 tag is 32 bytes long\<close>
  "hmac_sized P = (\<forall>k m. length (HMAC P k m) = 32)"

definition ctr_stream :: "('k, 'p) prims \<Rightarrow> bool" where
  \<comment> \<open>CTR mode is a stream cipher: the output is as long as the input, and applying it
      twice under the same key and nonce gives the input back\<close>
  "ctr_stream P =
     ((\<forall>k iv m. length (AES_CTR P k iv m) = length m) \<and>
      (\<forall>k iv m. AES_CTR P k iv (AES_CTR P k iv m) = m))"

subsection \<open>A small instance of the primitives\<close>

text \<open>
  Concrete stand-ins for the library primitives, on which the functions of the module can
  be evaluated: digests and tags of 32 bytes, a stream cipher that is its own inverse, and
  a key agreement that commutes (scalars multiplied modulo a prime, the public key of a
  scalar being the scalar itself in the second coordinate, and the \<open>(0, 0)\<close> point
  rejected).
\<close>

definition demo_prims :: "(int, int) prims" where
  "demo_prims =
     \<lparr> sha256 = (\<lambda>x. take 32 (rev x @ replicate 32 0)),
       HMAC = (\<lambda>k m. take 32 (rev m @ k @ replicate 32 0)),
       AES_CTR = (\<lambda>k iv m. map (\<lambda>b. b XOR 0x2A) m),
       public_key_bytes = (\<lambda>sk. replicate 32 0 @ sk),
       derive_private_key = (\<lambda>n. if 0 < n then Some n else None),
       from_encoded_point = (\<lambda>bs.
          if length bs = 65 \<and> big_endian_to_int (drop 33 bs) \<noteq> 0
          then Inr (big_endian_to_int (drop 33 bs)) else Inl ''Invalid EC key''),
       exchange = (\<lambda>k p. pad32 (be_digits (nat ((k * p) mod 65521)))) \<rparr>"

definition demo_privkey :: bytes where
  "demo_privkey = replicate 31 0 @ [5]"

definition demo_pubkey :: bytes where
  "demo_pubkey = public_key_bytes demo_prims demo_privkey"

definition demo_entropy :: "nat \<Rightarrow> 8 word" where
  "demo_entropy i = 7"

definition hello :: bytes where
  \<comment> \<open>\<open>b"hello"\<close>\<close>
  "hello = [0x68, 0x65, 0x6C, 0x6C, 0x6F]"

definition bad_header_msg :: bytes where
  \<comment> \<open>\<open>b"\x05"\<close> followed by 96 zero bytes\<close>
  "bad_header_msg = 0x05 # replicate 96 0"

definition bad_point_msg :: bytes where
  \<comment> \<open>a header byte, then the coordinates \<open>(0, 0)\<close>, then 48 zero bytes\<close>
  "bad_point_msg = 0x04 # replicate 112 0"

definition bad_tag_msg :: bytes where
  \<comment> \<open>a header byte, the public key of the scalar 3, an IV, no ciphertext and a tag of
      32 bytes \<open>0x01\<close>\<close>
  "bad_tag_msg = 0x04 # (replicate 63 0 @ [3]) @ replicate 16 7 @ replicate 32 1"

definition demo_msg :: bytes where
  \<comment> \<open>the message \<open>encrypt\<close> builds for \<open>b"hello"\<close> from the scalar 3\<close>
  "demo_msg = projr (encrypt demo_prims 3 demo_entropy hello demo_pubkey [])"

definition short_point_msg :: bytes where
  \<comment> \<open>65 bytes: a header byte and the coordinates \<open>(0, 0)\<close>\<close>
  "short_point_msg = 0x04 # replicate 64 0"

definition short_tag_msg :: bytes where
  \<comment> \<open>65 bytes: a header byte and the public key of the scalar 3\<close>
  "short_tag_msg = 0x04 # replicate 63 0 @ [3]"

section \<open>Verification\<close>

subsection \<open>Slices with the bounds the module uses\<close>

declare kdf_loop.simps [simp del]
declare be_digits.simps [simp del]

lemma py_slice_prefix: "0 \<le> j \<Longrightarrow> py_slice xs None (Some j) = take (nat j) xs"
  by (simp add: py_slice_def py_bound_def min_def Let_def)

lemma py_slice_suffix: "0 \<le> i \<Longrightarrow> py_slice xs (Some i) None = drop (nat i) xs"
  by (simp add: py_slice_def py_bound_def min_def Let_def)

lemma py_slice_range:
  "0 \<le> i \<Longrightarrow> 0 \<le> j \<Longrightarrow>
   py_slice xs (Some i) (Some j) = take (nat j - nat i) (drop (nat i) xs)"
  by (simp add: py_slice_def py_bound_def min_def Let_def)

lemma py_slice_last:
  "0 < k \<Longrightarrow> py_slice xs (Some (- k)) None = drop (length xs - nat k) xs"
  by (simp add: py_slice_def py_bound_def max_def Let_def nat_diff_distrib')

lemma py_slice_upto_last:
  "0 \<le> i \<Longrightarrow> 0 < k \<Longrightarrow>
   py_slice xs (Some i) (Some (- k)) = take (length xs - nat k - nat i) (drop (nat i) xs)"
  by (simp add: py_slice_def py_bound_def max_def min_def Let_def nat_diff_distrib')

lemmas py_slices =
  py_slice_prefix py_slice_suffix py_slice_range py_slice_last py_slice_upto_last

subsection \<open>The loop of \<open>kdf\<close>\<close>

lemma kdf_reps_floor: "\<lfloor>kdf_reps\<rfloor> = 0"
  by (simp add: kdf_reps_def KEY_LEN_def SHA256_block_size_def floor_eq_iff)

lemma kdf_loop_once:
  "kdf_loop P kdf_reps km 0 [] = Inr (sha256 P ([0, 0, 0, 1] @ km))"
  by (simp add: kdf_loop.simps [of _ _ _ 0] kdf_loop.simps [of _ _ _ 1] kdf_reps_def
      KEY_LEN_def SHA256_block_size_def struct_pack_I_def)

lemma kdf_eval: "kdf P km = Inr (take 32 (sha256 P ([0, 0, 0, 1] @ km)))"
  by (simp add: kdf_def kdf_loop_once py_slice_prefix KEY_LEN_def)

subsection \<open>The paths through \<open>decrypt\<close>\<close>

lemma keys_PublicKey_reject:
  "length bs \<noteq> 64 \<Longrightarrow> keys_PublicKey bs = Inl ValidationError"
  by (simp add: keys_PublicKey_def)

lemma decrypt_run_header:
  "take 1 data \<noteq> [0x04] \<Longrightarrow>
   decrypt_run P data privkey aad = ([], Inl (DecryptionError (Text ''wrong ecies header'')))"
  by (simp add: decrypt_run_def py_slice_prefix)

lemma decrypt_run_short:
  "take 1 data = [0x04] \<Longrightarrow> length data < 65 \<Longrightarrow>
   decrypt_run P data privkey aad = ([], Inl ValidationError)"
proof -
  assume header: "take 1 data = [0x04]" and short: "length data < 65"
  have "length (take 64 (drop 1 data)) \<noteq> 64"
    using short by simp
  then have "keys_PublicKey (take 64 (drop 1 data)) = Inl ValidationError"
    by (rule keys_PublicKey_reject)
  with header show ?thesis
    by (simp add: decrypt_run_def py_slices PUBKEY_LEN_def Let_def)
qed

lemma decrypt_run_invalid_key:
  "take 1 data = [0x04] \<Longrightarrow> 65 \<le> length data \<Longrightarrow>
   ecdh_agree P privkey (take 64 (drop 1 data)) = Inl (InvalidPublicKey exc) \<Longrightarrow>
   decrypt_run P data privkey aad =
     ([KeyAgreement], Inl (DecryptionError (SharedSecretFailure (take 64 (drop 1 data)) exc)))"
  by (simp add: decrypt_run_def py_slices PUBKEY_LEN_def keys_PublicKey_def Let_def)

lemma decrypt_run_agreed:
  "take 1 data = [0x04] \<Longrightarrow> 65 \<le> length data \<Longrightarrow>
   ecdh_agree P privkey (take 64 (drop 1 data)) = Inr s \<Longrightarrow>
   kdf P s = Inr K \<Longrightarrow>
   decrypt_run P data privkey aad =
     (if HMAC P (sha256 P (drop 16 K)) (take (length data - 32 - 65) (drop 65 data) @ aad)
           \<noteq> drop (length data - 32) data
      then ([KeyAgreement, KeyDerivation, TagVerification],
            Inl (DecryptionError (Text ''Failed to verify tag'')))
      else ([KeyAgreement, KeyDerivation, TagVerification, Decryption],
            Cipher_CTR P (take 16 K) (take 16 (drop 65 data))
              (take (length data - 32 - 81) (drop 81 data))))"
  by (simp add: decrypt_run_def py_slices PUBKEY_LEN_def KEY_LEN_def AES_block_size_def
      keys_PublicKey_def hmac_sha256_def bytes_eq_def Let_def)



subsection \<open>The small instance meets what the module relies on\<close>

lemma demo_sha256_sized: "sha256_sized demo_prims"
  by (simp add: sha256_sized_def demo_prims_def min_def)

lemma demo_hmac_sized: "hmac_sized demo_prims"
  by (auto simp add: hmac_sized_def demo_prims_def min_def)

lemma demo_ctr_stream: "ctr_stream demo_prims"
  by (simp add: ctr_stream_def demo_prims_def comp_def xor.assoc)

subsection \<open>The message \<open>encrypt\<close> builds and how \<open>decrypt\<close> reads it\<close>

lemma encrypt_eval:
  assumes "sha256_sized P" "generate_privkey v = Inr eph" "ecdh_agree P eph pk = Inr s"
    "kdf P s = Inr K"
  shows "encrypt P v ent m pk aad =
     (let iv = os_urandom ent 16; ct = AES_CTR P (take 16 K) iv m;
          msg = [0x04] @ public_key_bytes P eph @ iv @ ct
      in Inr (msg @ HMAC P (sha256 P (drop 16 K)) (drop 65 msg @ aad)))"
proof -
  have "K = take 32 (sha256 P ([0, 0, 0, 1] @ s))"
    using assms(4) by (simp add: kdf_eval)
  then have "length K = 32"
    using assms(1) by (simp add: sha256_sized_def)
  then show ?thesis
    using assms(2-4)
    by (simp add: encrypt_def py_slices KEY_LEN_def PUBKEY_LEN_def AES_block_size_def
        Cipher_CTR_def os_urandom_def hmac_sha256_def Let_def)
qed

lemma decrypt_run_framed:
  assumes "length R = 64" "length iv = 16" "length tag = 32"
    "ecdh_agree P sk R = Inr s" "kdf P s = Inr K"
  shows "decrypt_run P ([0x04] @ R @ iv @ ct @ tag) sk aad =
     (if HMAC P (sha256 P (drop 16 K)) (iv @ ct @ aad) \<noteq> tag
      then ([KeyAgreement, KeyDerivation, TagVerification],
            Inl (DecryptionError (Text ''Failed to verify tag'')))
      else ([KeyAgreement, KeyDerivation, TagVerification, Decryption],
            Cipher_CTR P (take 16 K) iv ct))"
proof -
  let ?data = "[0x04] @ R @ iv @ ct @ tag"
  have a: "take 1 ?data = [0x04]" by simp
  have b: "65 \<le> length ?data" using assms(1) by simp
  have c: "take 64 (drop 1 ?data) = R" using assms(1) by simp
  have d: "take (length ?data - 32 - 65) (drop 65 ?data) = iv @ ct"
    using assms(1-3) by simp
  have e: "drop (length ?data - 32) ?data = tag"
  proof -
    have "length ([0x04] @ R @ iv @ ct) = length ?data - 32"
      using assms(1-3) by simp
    then have "drop (length ?data - 32) (([0x04] @ R @ iv @ ct) @ tag) = tag"
      by (metis append_eq_conv_conj)
    then show ?thesis by simp
  qed
  have f: "take 16 (drop 65 ?data) = iv" using assms(1-3) by simp
  have g: "take (length ?data - 32 - 81) (drop 81 ?data) = ct" using assms(1-3) by simp
  from assms(4) have h: "ecdh_agree P sk (take 64 (drop 1 ?data)) = Inr s"
    by (simp only: c)
  show ?thesis
    by (simp only: decrypt_run_agreed [OF a b h assms(5)] d e f g append_assoc)
qed

lemma kdf_length: "sha256_sized P \<Longrightarrow> kdf P s = Inr K \<Longrightarrow> length K = 32"
  by (auto simp add: kdf_eval sha256_sized_def)

lemma Cipher_CTR_ok:
  "length key = 16 \<Longrightarrow> length iv = 16 \<Longrightarrow> Cipher_CTR P key iv data = Inr (AES_CTR P key iv data)"
  by (simp add: Cipher_CTR_def AES_block_size_def)

lemma os_urandom_length: "0 \<le> n \<Longrightarrow> length (os_urandom ent n) = nat n"
  by (simp add: os_urandom_def)

subsection \<open>The paths through \<open>decrypt\<close>, in the slices of the source\<close>

lemma decrypt_run_bad_point:
  assumes "py_slice data None (Some 1) = [0x04]"
    and "keys_PublicKey (py_slice data (Some 1) (Some 65)) = Inr shared"
    and "ecdh_agree P privkey shared = Inl (InvalidPublicKey exc)"
  shows "decrypt_run P data privkey aad =
     ([KeyAgreement], Inl (DecryptionError (SharedSecretFailure shared exc)))"
proof -
  have "shared = py_slice data (Some 1) (Some 65)"
    using assms(2) by (simp add: keys_PublicKey_def split: if_splits)
  then show ?thesis
    using assms by (simp add: decrypt_run_def PUBKEY_LEN_def Let_def)
qed

lemma decrypt_run_tag_checked:
  assumes "py_slice data None (Some 1) = [0x04]"
    and "keys_PublicKey (py_slice data (Some 1) (Some 65)) = Inr shared"
    and "ecdh_agree P privkey shared = Inr s"
    and "kdf P s = Inr K"
  shows "decrypt_run P data privkey aad =
     (if hmac_sha256 P (sha256 P (py_slice K (Some 16) None))
           (py_slice data (Some 65) (Some (- 32)) @ aad) \<noteq> py_slice data (Some (- 32)) None
      then ([KeyAgreement, KeyDerivation, TagVerification],
            Inl (DecryptionError (Text ''Failed to verify tag'')))
      else ([KeyAgreement, KeyDerivation, TagVerification, Decryption],
            Cipher_CTR P (py_slice K None (Some 16)) (py_slice data (Some 65) (Some 81))
              (py_slice data (Some 81) (Some (- 32)))))"
  using assms
  by (simp add: decrypt_run_def PUBKEY_LEN_def KEY_LEN_def AES_block_size_def bytes_eq_def
      Let_def)

lemma decrypt_run_stages:
  "Decryption \<in> set (fst (decrypt_run P data privkey aad)) \<Longrightarrow>
   fst (decrypt_run P data privkey aad) =
     [KeyAgreement, KeyDerivation, TagVerification, Decryption]
   \<and> (\<exists>shared s K.
         keys_PublicKey (py_slice data (Some 1) (Some 65)) = Inr shared
         \<and> ecdh_agree P privkey shared = Inr s
         \<and> kdf P s = Inr K
         \<and> hmac_sha256 P (sha256 P (py_slice K (Some 16) None))
             (py_slice data (Some 65) (Some (- 32)) @ aad) = py_slice data (Some (- 32)) None)"
  by (auto simp add: decrypt_run_def PUBKEY_LEN_def KEY_LEN_def AES_block_size_def bytes_eq_def
      Let_def split: if_splits sum.splits error.splits)

lemma decrypt_run_plaintext:
  "snd (decrypt_run P data privkey aad) = Inr m \<Longrightarrow>
   Decryption \<in> set (fst (decrypt_run P data privkey aad))"
  by (auto simp add: decrypt_run_def Let_def split: if_splits sum.splits error.splits)

lemma py_slice_short_body:
  "length data < 97 \<Longrightarrow> py_slice data (Some 65) (Some (- 32)) = []"
  by (simp add: py_slice_upto_last)

subsection \<open>Evaluations on the small instance\<close>

lemma demo_generate: "generate_privkey 3 = Inr (replicate 31 0 @ [3])"
  by code_simp

lemma demo_public_length: "length (public_key_bytes demo_prims (replicate 31 0 @ [3])) = 64"
  by (simp add: demo_prims_def)

lemma demo_agree_sender:
  "ecdh_agree demo_prims (replicate 31 0 @ [3]) demo_pubkey = Inr (replicate 31 0 @ [15])"
  by code_simp

lemma demo_agree_receiver:
  "ecdh_agree demo_prims demo_privkey (public_key_bytes demo_prims (replicate 31 0 @ [3]))
     = Inr (replicate 31 0 @ [15])"
  by code_simp


lemma demo_bad_header: "py_slice bad_header_msg None (Some 1) \<noteq> [0x04]"
  by code_simp

lemma demo_bad_point:
  "py_slice bad_point_msg None (Some 1) = [0x04]
   \<and> keys_PublicKey (py_slice bad_point_msg (Some 1) (Some 65)) = Inr (replicate 64 0)
   \<and> ecdh_agree demo_prims demo_privkey (replicate 64 0)
        = Inl (InvalidPublicKey ''Invalid EC key'')"
  by code_simp

lemma demo_bad_tag:
  "py_slice bad_tag_msg None (Some 1) = [0x04]
   \<and> keys_PublicKey (py_slice bad_tag_msg (Some 1) (Some 65)) = Inr (replicate 63 0 @ [3])
   \<and> ecdh_agree demo_prims demo_privkey (replicate 63 0 @ [3]) = Inr (replicate 31 0 @ [15])
   \<and> kdf demo_prims (replicate 31 0 @ [15]) = Inr (15 # replicate 31 0)
   \<and> hmac_sha256 demo_prims
        (sha256 demo_prims (py_slice (15 # replicate 31 0) (Some 16) None))
        (py_slice bad_tag_msg (Some 65) (Some (- 32)) @ [])
        \<noteq> py_slice bad_tag_msg (Some (- 32)) None"
  by code_simp

lemma demo_msg_decrypted:
  "Decryption \<in> set (fst (decrypt_run demo_prims demo_msg demo_privkey []))"
  by code_simp

lemma demo_msg_plaintext: "decrypt demo_prims demo_msg demo_privkey [] = Inr hello"
  by code_simp

subsection \<open>Tags of 32 bytes: two values of \<open>shared_mac_data\<close> that share a tag\<close>



section \<open>The claims\<close>

text \<open>
  C1. Round trip: for a key pair and an ephemeral key whose two key agreements give the
  same secret (\<open>ecdhAgree(r, recipientPublic) = ecdhAgree(recipientPrivate, R)\<close>), every
  byte string \<open>m\<close>, the empty one included, and the same \<open>shared_mac_data\<close> in both
  calls, \<open>decrypt(encrypt(m, pk), sk)\<close> returns exactly \<open>m\<close>.
\<close>

theorem roundtrip:
  assumes "sha256_sized P" and "hmac_sized P" and "ctr_stream P"
    and "generate_privkey private_value = Inr ephemeral"
    and "length (public_key_bytes P ephemeral) = 64"
    and "ecdh_agree P ephemeral pubkey = Inr s"
    and "ecdh_agree P privkey (public_key_bytes P ephemeral) = Inr s"
  shows "\<exists>msg. encrypt P private_value ent m pubkey shared_mac_data = Inr msg
           \<and> decrypt P msg privkey shared_mac_data = Inr m"
proof -
  obtain K where K: "kdf P s = Inr K"
    by (simp add: kdf_eval)
  have lenK: "length K = 32"
    using assms(1) K by (rule kdf_length)
  let ?R = "public_key_bytes P ephemeral"
  let ?iv = "os_urandom ent 16"
  let ?ct = "AES_CTR P (take 16 K) ?iv m"
  let ?tag = "HMAC P (sha256 P (drop 16 K)) (?iv @ ?ct @ shared_mac_data)"
  let ?msg = "[0x04] @ ?R @ ?iv @ ?ct @ ?tag"
  have iv: "length ?iv = 16"
    by (simp add: os_urandom_length)
  have tag: "length ?tag = 32"
    using assms(2) by (simp add: hmac_sized_def)
  have enc: "encrypt P private_value ent m pubkey shared_mac_data = Inr ?msg"
    using assms(5) by (simp add: encrypt_eval [OF assms(1) assms(4) assms(6) K] Let_def)
  have "decrypt_run P ?msg privkey shared_mac_data =
      ([KeyAgreement, KeyDerivation, TagVerification, Decryption],
       Cipher_CTR P (take 16 K) ?iv ?ct)"
    using decrypt_run_framed [OF assms(5) iv tag assms(7) K, of ?ct shared_mac_data]
    by simp
  moreover have "Cipher_CTR P (take 16 K) ?iv ?ct = Inr m"
    using assms(3) lenK iv by (simp add: Cipher_CTR_ok ctr_stream_def)
  ultimately have "decrypt P ?msg privkey shared_mac_data = Inr m"
    by (simp add: decrypt_def)
  with enc show ?thesis by blast
qed

theorem roundtrip_witness:
  "\<exists>msg. encrypt demo_prims 3 demo_entropy hello demo_pubkey [] = Inr msg
         \<and> decrypt demo_prims msg demo_privkey [] = Inr hello"
  by (rule roundtrip [OF demo_sha256_sized demo_hmac_sized demo_ctr_stream demo_generate
        demo_public_length demo_agree_sender demo_agree_receiver])

text \<open>
  C2, as the code has it. For every plaintext \<open>m\<close> and every recipient key with which the
  key agreement succeeds, \<open>encrypt\<close> returns
  \<open>0x04 || ephemeral_pubkey (64) || iv (16) || ciphertext (len(m)) || tag (32)\<close>: its first
  byte is \<open>0x04\<close> and its length is \<open>1 + 64 + 16 + len(m) + 32\<close>, which is
  \<open>113 + len(m)\<close> and not \<open>97 + len(m)\<close>.
\<close>

theorem encrypt_layout:
  assumes "sha256_sized P" and "hmac_sized P" and "ctr_stream P"
    and "generate_privkey private_value = Inr ephemeral"
    and "length (public_key_bytes P ephemeral) = 64"
    and "ecdh_agree P ephemeral pubkey = Inr s"
  shows "\<exists>ciphertext tag.
           encrypt P private_value ent m pubkey shared_mac_data =
             Inr ([0x04] @ public_key_bytes P ephemeral @ os_urandom ent 16 @ ciphertext @ tag)
           \<and> length (os_urandom ent 16) = 16
           \<and> length ciphertext = length m
           \<and> length tag = 32
           \<and> length ([0x04] @ public_key_bytes P ephemeral @ os_urandom ent 16
                        @ ciphertext @ tag) = 113 + length m"
proof -
  obtain K where K: "kdf P s = Inr K"
    by (simp add: kdf_eval)
  let ?iv = "os_urandom ent 16"
  let ?ct = "AES_CTR P (take 16 K) ?iv m"
  let ?tag = "HMAC P (sha256 P (drop 16 K)) (?iv @ ?ct @ shared_mac_data)"
  have iv: "length ?iv = 16"
    by (simp add: os_urandom_length)
  have ct: "length ?ct = length m"
    using assms(3) by (simp add: ctr_stream_def)
  have tag: "length ?tag = 32"
    using assms(2) by (simp add: hmac_sized_def)
  have "encrypt P private_value ent m pubkey shared_mac_data =
      Inr ([0x04] @ public_key_bytes P ephemeral @ ?iv @ ?ct @ ?tag)"
    using assms(5) by (simp add: encrypt_eval [OF assms(1) assms(4) assms(6) K] Let_def)
  moreover have "length ([0x04] @ public_key_bytes P ephemeral @ ?iv @ ?ct @ ?tag)
      = 113 + length m"
    using assms(5) iv ct tag by simp
  ultimately show ?thesis
    using iv ct tag by blast
qed

theorem encrypt_layout_witness:
  "\<exists>ciphertext tag.
     encrypt demo_prims 3 demo_entropy hello demo_pubkey [] =
       Inr ([0x04] @ public_key_bytes demo_prims (replicate 31 0 @ [3])
              @ os_urandom demo_entropy 16 @ ciphertext @ tag)
     \<and> length (os_urandom demo_entropy 16) = 16
     \<and> length ciphertext = length hello
     \<and> length tag = 32
     \<and> length ([0x04] @ public_key_bytes demo_prims (replicate 31 0 @ [3])
                  @ os_urandom demo_entropy 16 @ ciphertext @ tag) = 113 + length hello"
  by (rule encrypt_layout [OF demo_sha256_sized demo_hmac_sized demo_ctr_stream demo_generate
        demo_public_length demo_agree_sender])

text \<open>
  For the five bytes of \<open>b"hello"\<close> the message is 118 bytes long, not 113: the sum
  \<open>1 + 64 + 16 + 32\<close> is 113, not 97.
\<close>

theorem encrypt_hello_length:
  "\<not> isl (encrypt demo_prims 3 demo_entropy hello demo_pubkey [])
   \<and> length (projr (encrypt demo_prims 3 demo_entropy hello demo_pubkey [])) = 118
   \<and> length (projr (encrypt demo_prims 3 demo_entropy hello demo_pubkey []))
        \<noteq> 97 + length hello"
  by code_simp

text \<open>
  C3, as the code has it. \<open>decrypt\<close> has no check of the length of its input. On an input
  shorter than 97 bytes it raises \<open>DecryptionError\<close> when the first byte is not \<open>0x04\<close>
  (the empty input included), when the 64 bytes after the header are all there and are not
  a point of the curve, and when the last 32 bytes differ from the tag, which for such an
  input is computed over \<open>shared_mac_data\<close> alone. An input that starts with \<open>0x04\<close> and
  has fewer than 65 bytes is outside this statement.
\<close>

theorem decrypt_short_input:
  assumes "length data < 97"
  shows "(py_slice data None (Some 1) \<noteq> [0x04] \<longrightarrow>
            decrypt P data privkey aad = Inl (DecryptionError (Text ''wrong ecies header'')))
       \<and> (py_slice data None (Some 1) = [0x04]
            \<and> keys_PublicKey (py_slice data (Some 1) (Some 65)) = Inr shared
            \<and> ecdh_agree P privkey shared = Inl (InvalidPublicKey exc) \<longrightarrow>
            decrypt P data privkey aad = Inl (DecryptionError (SharedSecretFailure shared exc)))
       \<and> (py_slice data None (Some 1) = [0x04]
            \<and> keys_PublicKey (py_slice data (Some 1) (Some 65)) = Inr shared
            \<and> ecdh_agree P privkey shared = Inr s \<and> kdf P s = Inr K
            \<and> hmac_sha256 P (sha256 P (py_slice K (Some 16) None)) aad
                 \<noteq> py_slice data (Some (- 32)) None \<longrightarrow>
            decrypt P data privkey aad = Inl (DecryptionError (Text ''Failed to verify tag'')))"
proof (intro conjI impI)
  assume "py_slice data None (Some 1) \<noteq> [0x04]"
  then show "decrypt P data privkey aad = Inl (DecryptionError (Text ''wrong ecies header''))"
    by (simp add: decrypt_def decrypt_run_def)
next
  assume "py_slice data None (Some 1) = [0x04]
      \<and> keys_PublicKey (py_slice data (Some 1) (Some 65)) = Inr shared
      \<and> ecdh_agree P privkey shared = Inl (InvalidPublicKey exc)"
  then show "decrypt P data privkey aad = Inl (DecryptionError (SharedSecretFailure shared exc))"
    by (simp add: decrypt_def decrypt_run_bad_point)
next
  assume h: "py_slice data None (Some 1) = [0x04]
      \<and> keys_PublicKey (py_slice data (Some 1) (Some 65)) = Inr shared
      \<and> ecdh_agree P privkey shared = Inr s \<and> kdf P s = Inr K
      \<and> hmac_sha256 P (sha256 P (py_slice K (Some 16) None)) aad
           \<noteq> py_slice data (Some (- 32)) None"
  then have "decrypt_run P data privkey aad =
      ([KeyAgreement, KeyDerivation, TagVerification],
       Inl (DecryptionError (Text ''Failed to verify tag'')))"
    using py_slice_short_body [OF assms]
    by (simp add: decrypt_run_tag_checked [of data shared P privkey s K])
  then show "decrypt P data privkey aad = Inl (DecryptionError (Text ''Failed to verify tag''))"
    by (simp add: decrypt_def)
qed

theorem decrypt_short_input_witness:
  "decrypt demo_prims [0x05] demo_privkey [] =
     Inl (DecryptionError (Text ''wrong ecies header''))
   \<and> decrypt demo_prims short_point_msg demo_privkey [] =
     Inl (DecryptionError (SharedSecretFailure (replicate 64 0) ''Invalid EC key''))
   \<and> decrypt demo_prims short_tag_msg demo_privkey [] =
     Inl (DecryptionError (Text ''Failed to verify tag''))"
proof -
  have l1: "length [0x05 :: 8 word] < 97" by simp
  have l2: "length short_point_msg < 97" by (simp add: short_point_msg_def)
  have l3: "length short_tag_msg < 97" by (simp add: short_tag_msg_def)
  have h1: "py_slice [0x05 :: 8 word] None (Some 1) \<noteq> [0x04]"
    by code_simp
  have h2: "py_slice short_point_msg None (Some 1) = [0x04]
      \<and> keys_PublicKey (py_slice short_point_msg (Some 1) (Some 65)) = Inr (replicate 64 0)
      \<and> ecdh_agree demo_prims demo_privkey (replicate 64 0)
          = Inl (InvalidPublicKey ''Invalid EC key'')"
    by code_simp
  have h3: "py_slice short_tag_msg None (Some 1) = [0x04]
      \<and> keys_PublicKey (py_slice short_tag_msg (Some 1) (Some 65)) = Inr (replicate 63 0 @ [3])
      \<and> ecdh_agree demo_prims demo_privkey (replicate 63 0 @ [3]) = Inr (replicate 31 0 @ [15])
      \<and> kdf demo_prims (replicate 31 0 @ [15])
          = Inr (15 # replicate 31 0)
      \<and> hmac_sha256 demo_prims
           (sha256 demo_prims (py_slice (15 # replicate 31 0) (Some 16) None)) []
          \<noteq> py_slice short_tag_msg (Some (- 32)) None"
    by code_simp
  from decrypt_short_input [OF l1, THEN conjunct1, rule_format, OF h1]
    decrypt_short_input [OF l2, THEN conjunct2, THEN conjunct1, rule_format, OF h2]
    decrypt_short_input [OF l3, THEN conjunct2, THEN conjunct2, rule_format, OF h3]
  show ?thesis
    by (intro conjI)
qed

text \<open>
  On the one byte \<open>0x04\<close> the header check passes, the slice for the public key is empty,
  and the constructor \<open>keys.PublicKey\<close> raises its own \<open>ValidationError\<close>, which \<open>decrypt\<close>
  does not catch: the failure is not a \<open>DecryptionError\<close>.
\<close>

theorem decrypt_header_only_not_decryption_error:
  "length [0x04 :: 8 word] < 97
   \<and> decrypt demo_prims [0x04] demo_privkey [] = Inl ValidationError"
  by code_simp

text \<open>
  C4. On an input whose first byte is not \<open>0x04\<close>, \<open>decrypt\<close> raises
  \<open>DecryptionError("wrong ecies header")\<close> and has entered no stage: neither the key
  agreement nor the key derivation is attempted.
\<close>

theorem bad_header_no_key_agreement:
  assumes "data = b # rest" and "b \<noteq> 0x04"
  shows "decrypt_run P data privkey aad =
           ([], Inl (DecryptionError (Text ''wrong ecies header'')))
       \<and> decrypt P data privkey aad = Inl (DecryptionError (Text ''wrong ecies header''))
       \<and> KeyAgreement \<notin> set (fst (decrypt_run P data privkey aad))
       \<and> KeyDerivation \<notin> set (fst (decrypt_run P data privkey aad))"
proof -
  have "take 1 data \<noteq> [0x04]"
    using assms by simp
  then have "decrypt_run P data privkey aad =
      ([], Inl (DecryptionError (Text ''wrong ecies header'')))"
    by (rule decrypt_run_header)
  then show ?thesis
    by (simp add: decrypt_def)
qed

theorem bad_header_no_key_agreement_witness:
  "decrypt_run demo_prims bad_header_msg demo_privkey [] =
           ([], Inl (DecryptionError (Text ''wrong ecies header'')))
       \<and> decrypt demo_prims bad_header_msg demo_privkey [] =
           Inl (DecryptionError (Text ''wrong ecies header''))
       \<and> KeyAgreement \<notin> set (fst (decrypt_run demo_prims bad_header_msg demo_privkey []))
       \<and> KeyDerivation \<notin> set (fst (decrypt_run demo_prims bad_header_msg demo_privkey []))"
proof -
  have a: "bad_header_msg = 0x05 # replicate 96 0"
    by (simp add: bad_header_msg_def)
  have b: "(0x05 :: 8 word) \<noteq> 0x04"
    by simp
  show ?thesis
    by (rule bad_header_no_key_agreement [OF a b])
qed

text \<open>
  C5, as the code has it. \<open>reps\<close> is \<open>312 / 512 = 39 / 64\<close> under the true division of the
  source (and 0, not 1, under integer division). The loop starts at \<open>counter = 0\<close>, runs
  while \<open>counter <= reps\<close> and increments the counter before hashing, so it hashes for
  \<open>counter = 1\<close> up to and including \<open>floor(reps) + 1 = 1\<close>: \<open>kdf(s)\<close> is the first 32 bytes
  of \<open>SHA256(00 00 00 01 || s)\<close>, and it is 32 bytes long since a digest is.
\<close>

theorem kdf_one_digest:
  "kdf_reps = 39 / 64
   \<and> \<lfloor>kdf_reps\<rfloor> = 0
   \<and> kdf P shared_secret =
       Inr (take 32 (concat (map (\<lambda>counter. sha256 P (be32 counter @ shared_secret))
                               [1..\<lfloor>kdf_reps\<rfloor> + 1])))
   \<and> kdf P shared_secret = Inr (take 32 (sha256 P ([0, 0, 0, 1] @ shared_secret)))
   \<and> (sha256_sized P \<longrightarrow> (\<exists>key. kdf P shared_secret = Inr key \<and> length key = 32))"
proof -
  have a: "kdf_reps = 39 / 64"
    by (simp add: kdf_reps_def KEY_LEN_def SHA256_block_size_def)
  have b: "[1..\<lfloor>kdf_reps\<rfloor> + 1] = [1]"
    by (simp add: kdf_reps_floor upto.simps)
  have c: "be32 1 = [0, 0, 0, 1]"
    by (simp add: be32_def)
  have d: "sha256_sized P \<longrightarrow> (\<exists>key. kdf P shared_secret = Inr key \<and> length key = 32)"
    by (simp add: kdf_eval sha256_sized_def)
  show ?thesis
    using a d by (simp add: b c kdf_reps_floor kdf_eval)
qed

theorem kdf_one_digest_witness:
  "sha256_sized demo_prims \<and> (\<exists>key. kdf demo_prims [] = Inr key \<and> length key = 32)"
  using kdf_one_digest [of demo_prims "[]"] demo_sha256_sized by blast

text \<open>
  With \<open>reps\<close> computed by the formula under integer semantics, the range
  \<open>1 .. reps\<close> of the specification is empty and the key it describes is the empty byte
  string, where \<open>kdf\<close> returns 32 bytes.
\<close>

theorem kdf_spec_differs:
  "kdf_spec_reps = 0 \<and> kdf_spec demo_prims [] = []
   \<and> kdf demo_prims [] = Inr ([1, 0, 0, 0] @ replicate 28 0)
   \<and> kdf demo_prims [] \<noteq> Inr (kdf_spec demo_prims [])"
  by code_simp






text \<open>
  C8, as the code has it. The three recoverable failures of \<open>decrypt\<close> (wrong header byte,
  embedded bytes that are not a point of the curve, tag mismatch) are all raised as the one
  exception class \<open>DecryptionError\<close>; each carries its own text, which names the cause.
\<close>

theorem decrypt_failures_one_kind:
  "(py_slice data None (Some 1) \<noteq> [0x04] \<longrightarrow>
      decrypt P data privkey aad = Inl (DecryptionError (Text ''wrong ecies header'')))
   \<and> (py_slice data None (Some 1) = [0x04]
        \<and> keys_PublicKey (py_slice data (Some 1) (Some 65)) = Inr shared
        \<and> ecdh_agree P privkey shared = Inl (InvalidPublicKey exc) \<longrightarrow>
      decrypt P data privkey aad = Inl (DecryptionError (SharedSecretFailure shared exc)))
   \<and> (py_slice data None (Some 1) = [0x04]
        \<and> keys_PublicKey (py_slice data (Some 1) (Some 65)) = Inr shared
        \<and> ecdh_agree P privkey shared = Inr s \<and> kdf P s = Inr K
        \<and> hmac_sha256 P (sha256 P (py_slice K (Some 16) None))
             (py_slice data (Some 65) (Some (- 32)) @ aad)
             \<noteq> py_slice data (Some (- 32)) None \<longrightarrow>
      decrypt P data privkey aad = Inl (DecryptionError (Text ''Failed to verify tag'')))"
proof (intro conjI impI)
  assume "py_slice data None (Some 1) \<noteq> [0x04]"
  then show "decrypt P data privkey aad = Inl (DecryptionError (Text ''wrong ecies header''))"
    by (simp add: decrypt_def decrypt_run_def)
next
  assume "py_slice data None (Some 1) = [0x04]
      \<and> keys_PublicKey (py_slice data (Some 1) (Some 65)) = Inr shared
      \<and> ecdh_agree P privkey shared = Inl (InvalidPublicKey exc)"
  then show "decrypt P data privkey aad = Inl (DecryptionError (SharedSecretFailure shared exc))"
    by (simp add: decrypt_def decrypt_run_bad_point)
next
  assume "py_slice data None (Some 1) = [0x04]
      \<and> keys_PublicKey (py_slice data (Some 1) (Some 65)) = Inr shared
      \<and> ecdh_agree P privkey shared = Inr s \<and> kdf P s = Inr K
      \<and> hmac_sha256 P (sha256 P (py_slice K (Some 16) None))
           (py_slice data (Some 65) (Some (- 32)) @ aad)
           \<noteq> py_slice data (Some (- 32)) None"
  then show "decrypt P data privkey aad = Inl (DecryptionError (Text ''Failed to verify tag''))"
    by (simp add: decrypt_def decrypt_run_tag_checked [of data shared P privkey s K])
qed

theorem decrypt_failures_one_kind_witness:
  "decrypt demo_prims bad_header_msg demo_privkey [] =
     Inl (DecryptionError (Text ''wrong ecies header''))
   \<and> decrypt demo_prims bad_point_msg demo_privkey [] =
     Inl (DecryptionError (SharedSecretFailure (replicate 64 0) ''Invalid EC key''))
   \<and> decrypt demo_prims bad_tag_msg demo_privkey [] =
     Inl (DecryptionError (Text ''Failed to verify tag''))"
  using decrypt_failures_one_kind [THEN conjunct1, rule_format, OF demo_bad_header]
    decrypt_failures_one_kind [THEN conjunct2, THEN conjunct1, rule_format, OF demo_bad_point]
    decrypt_failures_one_kind [THEN conjunct2, THEN conjunct2, rule_format, OF demo_bad_tag]
  by (intro conjI)

text \<open>
  The three failures are told apart by the text of the exception: a wrong header, an
  invalid point and a wrong tag give three different values.
\<close>

theorem decrypt_failures_distinguishable:
  "decrypt demo_prims bad_header_msg demo_privkey [] =
     Inl (DecryptionError (Text ''wrong ecies header''))
   \<and> decrypt demo_prims bad_point_msg demo_privkey [] =
     Inl (DecryptionError (SharedSecretFailure (replicate 64 0) ''Invalid EC key''))
   \<and> decrypt demo_prims bad_tag_msg demo_privkey [] =
     Inl (DecryptionError (Text ''Failed to verify tag''))
   \<and> decrypt demo_prims bad_header_msg demo_privkey []
       \<noteq> decrypt demo_prims bad_point_msg demo_privkey []
   \<and> decrypt demo_prims bad_point_msg demo_privkey []
       \<noteq> decrypt demo_prims bad_tag_msg demo_privkey []
   \<and> decrypt demo_prims bad_header_msg demo_privkey []
       \<noteq> decrypt demo_prims bad_tag_msg demo_privkey []"
  by code_simp

text \<open>
  C9. Verify, then decrypt: when the recomputed tag differs from the embedded one,
  \<open>decrypt\<close> raises \<open>DecryptionError\<close> after the stages key agreement, key derivation and tag
  verification, without entering the decryption stage; the decryption stage is entered
  only as the fourth stage, after a tag comparison that succeeded; and a plaintext is
  returned only by the decryption stage.
\<close>

theorem tag_verified_before_decryption:
  "(py_slice data None (Some 1) = [0x04]
      \<and> keys_PublicKey (py_slice data (Some 1) (Some 65)) = Inr shared
      \<and> ecdh_agree P privkey shared = Inr s \<and> kdf P s = Inr K
      \<and> hmac_sha256 P (sha256 P (py_slice K (Some 16) None))
           (py_slice data (Some 65) (Some (- 32)) @ aad)
           \<noteq> py_slice data (Some (- 32)) None \<longrightarrow>
    decrypt_run P data privkey aad =
      ([KeyAgreement, KeyDerivation, TagVerification],
       Inl (DecryptionError (Text ''Failed to verify tag''))))
   \<and> (Decryption \<in> set (fst (decrypt_run P data' privkey aad)) \<longrightarrow>
        fst (decrypt_run P data' privkey aad) =
          [KeyAgreement, KeyDerivation, TagVerification, Decryption]
        \<and> (\<exists>shared s K.
              keys_PublicKey (py_slice data' (Some 1) (Some 65)) = Inr shared
              \<and> ecdh_agree P privkey shared = Inr s
              \<and> kdf P s = Inr K
              \<and> hmac_sha256 P (sha256 P (py_slice K (Some 16) None))
                  (py_slice data' (Some 65) (Some (- 32)) @ aad)
                  = py_slice data' (Some (- 32)) None))
   \<and> (\<forall>m. decrypt P data' privkey aad = Inr m \<longrightarrow>
        Decryption \<in> set (fst (decrypt_run P data' privkey aad)))"
proof (intro conjI impI allI)
  assume "py_slice data None (Some 1) = [0x04]
      \<and> keys_PublicKey (py_slice data (Some 1) (Some 65)) = Inr shared
      \<and> ecdh_agree P privkey shared = Inr s \<and> kdf P s = Inr K
      \<and> hmac_sha256 P (sha256 P (py_slice K (Some 16) None))
           (py_slice data (Some 65) (Some (- 32)) @ aad)
           \<noteq> py_slice data (Some (- 32)) None"
  then show "decrypt_run P data privkey aad =
      ([KeyAgreement, KeyDerivation, TagVerification],
       Inl (DecryptionError (Text ''Failed to verify tag'')))"
    by (simp add: decrypt_run_tag_checked [of data shared P privkey s K])
next
  assume d: "Decryption \<in> set (fst (decrypt_run P data' privkey aad))"
  from decrypt_run_stages [OF d]
  show "fst (decrypt_run P data' privkey aad) =
      [KeyAgreement, KeyDerivation, TagVerification, Decryption]"
    by (rule conjunct1)
  from decrypt_run_stages [OF d]
  show "\<exists>shared s K.
      keys_PublicKey (py_slice data' (Some 1) (Some 65)) = Inr shared
      \<and> ecdh_agree P privkey shared = Inr s
      \<and> kdf P s = Inr K
      \<and> hmac_sha256 P (sha256 P (py_slice K (Some 16) None))
          (py_slice data' (Some 65) (Some (- 32)) @ aad)
          = py_slice data' (Some (- 32)) None"
    by (rule conjunct2)
next
  fix m
  assume "decrypt P data' privkey aad = Inr m"
  then show "Decryption \<in> set (fst (decrypt_run P data' privkey aad))"
    by (simp add: decrypt_def decrypt_run_plaintext)
qed

theorem tag_verified_before_decryption_witness:
  "decrypt_run demo_prims bad_tag_msg demo_privkey [] =
      ([KeyAgreement, KeyDerivation, TagVerification],
       Inl (DecryptionError (Text ''Failed to verify tag'')))
   \<and> fst (decrypt_run demo_prims demo_msg demo_privkey []) =
      [KeyAgreement, KeyDerivation, TagVerification, Decryption]
   \<and> Decryption \<in> set (fst (decrypt_run demo_prims demo_msg demo_privkey []))"
  using tag_verified_before_decryption [THEN conjunct1, rule_format, OF demo_bad_tag]
    tag_verified_before_decryption
      [THEN conjunct2, THEN conjunct1, rule_format, OF demo_msg_decrypted, THEN conjunct1]
    tag_verified_before_decryption
      [THEN conjunct2, THEN conjunct2, rule_format, OF demo_msg_plaintext]
  by (intro conjI)

text \<open>
  C10. On the empty byte string the slice \<open>data[:1]\<close> is empty, it differs from
  \<open>b"\x04"\<close>, and \<open>decrypt\<close> raises \<open>DecryptionError("wrong ecies header")\<close> before any
  stage is entered.
\<close>

theorem decrypt_empty_input:
  "py_slice ([] :: bytes) None (Some 1) = []
   \<and> decrypt_run P [] privkey aad = ([], Inl (DecryptionError (Text ''wrong ecies header'')))
   \<and> decrypt P [] privkey aad = Inl (DecryptionError (Text ''wrong ecies header''))"
  by (simp add: decrypt_def decrypt_run_def py_slice_prefix)

end
